theory Spec2Isabelle
  imports Main "HOL-Library.Sublist"
begin

section \<open>City Mitra AI: the record stores and the complaint lifecycle of index.tsx\<close>

text \<open>
  The development follows \<^verbatim>\<open>src/index.tsx\<close>: the two localStorage-backed stores
  (lines 71-105), registration and login (lines 165-206), complaint submission
  (lines 216-260), the status update (lines 262-266) and the administrator's
  filter (lines 277-286). React state is one record that every handler takes and
  returns; browser storage is a second record nested in it; \<^verbatim>\<open>alert\<close> calls are
  returned as values. A handler runs atomically: the single \<^verbatim>\<open>await\<close> of the
  submission is modelled by passing the outcome of the remote call as an argument.

  A JavaScript string is a sequence of UTF-16 code units. A \<open>char\<close> stands for the code
  unit of the same number, so a \<open>string\<close> is a text whose code units lie below 256
  (U+0000 to U+00FF, ASCII and the Latin-1 supplement); the platform's string functions
  are written out for that range.
\<close>

subsection \<open>Types and interfaces (lines 41-69)\<close>

datatype Status = Pending | InProgress | Resolved

datatype Urgency = Low | Medium | High

text \<open>The union \<^verbatim>\<open>'user' | 'admin'\<close>.\<close>

datatype Role = User | Admin

record UserAccount =
  username :: string
  password :: string
  name :: string
  role :: Role

text \<open>An entry of \<^verbatim>\<open>adminComments\<close>: \<^verbatim>\<open>{ text: string; date: number }\<close>.\<close>

record AdminComment =
  comment_text :: string
  date :: int


record Complaint =
  id_c :: string
  userId :: string
  userName :: string
  originalText :: string
  englishText :: string
  category :: string
  urgency :: string
  status :: Status
  image :: "string option"
  adminComments :: "AdminComment list"
  timestamp :: int

text \<open>\<^verbatim>\<open>UserSession\<close>: fields \<^verbatim>\<open>id\<close>, \<^verbatim>\<open>role\<close>, \<^verbatim>\<open>name\<close>, suffixed to keep them apart
  from the fields of \<open>UserAccount\<close>.\<close>

record UserSession =
  id_s :: string
  role_s :: Role
  name_s :: string

subsection \<open>Browser storage and JSON\<close>

text \<open>
  \<^verbatim>\<open>localStorage.getItem\<close>, \<^verbatim>\<open>JSON.parse\<close> and \<^verbatim>\<open>JSON.stringify\<close> belong to the
  platform. A slot of the storage is described by what these calls observe of it:
  \<^item> \<open>NoItem\<close>: the key is absent, \<^verbatim>\<open>getItem\<close> returns \<^verbatim>\<open>null\<close>;
  \<^item> \<open>EmptyText\<close>: the empty string, which is falsy;
  \<^item> \<open>BadText\<close>: a non-empty text on which \<^verbatim>\<open>JSON.parse\<close> throws a SyntaxError;
  \<^item> \<open>OtherJson\<close>: the text of a JSON value that is not an array (\<^verbatim>\<open>null\<close>, a number,
    a string, a boolean, an object);
  \<^item> \<open>Items xs\<close>: the text \<^verbatim>\<open>JSON.stringify\<close> produces for the array \<open>xs\<close>, which
    \<^verbatim>\<open>JSON.parse\<close> reads back as \<open>xs\<close>.
  An element of the complaint array is a record of the declared type. An element of the
  user array is \<open>Some u\<close>, a record of the declared type, or \<open>None\<close>, the JSON value
  \<^verbatim>\<open>null\<close>: reading \<^verbatim>\<open>u.username\<close> of it throws a TypeError, which the scans of
  lines 90, 168 and 190 can meet.
\<close>

datatype 'a item = NoItem | EmptyText | BadText | OtherJson | Items "'a list"

text \<open>The value \<^verbatim>\<open>JSON.parse\<close> returns: an array of records or some other JSON value.\<close>

datatype 'a parsed = JArray "'a list" | JOther

text \<open>\<^verbatim>\<open>localStorage\<close>, restricted to the two keys the program uses:
  \<^verbatim>\<open>DB_KEY = 'CITY_MITRA_COMPLAINTS_V5'\<close> and \<^verbatim>\<open>USERS_KEY = 'CITY_MITRA_USERS_V5'\<close>.\<close>

record localStorage =
  DB_KEY :: "Complaint item"
  USERS_KEY :: "UserAccount option item"

text \<open>The exceptions the handlers can meet.\<close>

datatype error = SyntaxError | TypeError

text \<open>
  \<^verbatim>\<open>users.find(u => p(u))\<close> where the callback reads a property of \<open>u\<close>: the
  elements are visited in order; a \<^verbatim>\<open>null\<close> element throws, the first record that
  satisfies \<open>p\<close> is returned, and the end of the array gives \<^verbatim>\<open>undefined\<close>
  (\<open>Inr None\<close>).
\<close>

fun jsFind :: "('a \<Rightarrow> bool) \<Rightarrow> 'a option list \<Rightarrow> error + 'a option" where
  "jsFind p [] = Inr None"
| "jsFind p (None # xs) = Inl TypeError"
| "jsFind p (Some x # xs) = (if p x then Inr (Some x) else jsFind p xs)"

subsection \<open>Persistence layer (lines 71-105)\<close>

definition getComplaintsFromStorage :: "localStorage \<Rightarrow> Complaint parsed" where
  "getComplaintsFromStorage ls =
     (case DB_KEY ls of
        NoItem \<Rightarrow> JArray []
      | EmptyText \<Rightarrow> JArray []
      | BadText \<Rightarrow> JArray []
      | OtherJson \<Rightarrow> JOther
      | Items cs \<Rightarrow> JArray cs)"

definition defaultAdmin :: UserAccount where
  "defaultAdmin =
     \<lparr>username = ''admin'', password = ''admin123'', name = ''Chief Administrator'',
      role = Admin\<rparr>"

text \<open>Lines 90-93: \<^verbatim>\<open>if (!users.find(u => u.username === 'admin')) users.push(defaultAdmin)\<close>,
  then \<^verbatim>\<open>return users\<close>; \<open>Inl\<close> is the exception the scan throws.\<close>

definition pushDefaultAdmin :: "UserAccount option list \<Rightarrow> error + UserAccount option list" where
  "pushDefaultAdmin users =
     (case jsFind (\<lambda>u. username u = ''admin'') users of
        Inl e \<Rightarrow> Inl e
      | Inr None \<Rightarrow> Inr (users @ [Some defaultAdmin])
      | Inr (Some u) \<Rightarrow> Inr users)"

text \<open>
  The \<^verbatim>\<open>try\<close> block of lines 85-93: a missing or empty text gives \<^verbatim>\<open>[]\<close>,
  \<^verbatim>\<open>JSON.parse\<close> throws a SyntaxError on text that is not JSON, \<^verbatim>\<open>users.find\<close> is
  not a function on a value that is not an array (a TypeError), and the scan of an array
  can throw.
\<close>

definition parseUsers :: "localStorage \<Rightarrow> error + UserAccount option list" where
  "parseUsers ls =
     (case USERS_KEY ls of
        NoItem \<Rightarrow> pushDefaultAdmin []
      | EmptyText \<Rightarrow> pushDefaultAdmin []
      | BadText \<Rightarrow> Inl SyntaxError
      | OtherJson \<Rightarrow> Inl TypeError
      | Items us \<Rightarrow> pushDefaultAdmin us)"

text \<open>Every exception reaches the \<^verbatim>\<open>catch\<close> of line 94, which returns \<^verbatim>\<open>[]\<close>.\<close>

definition getUsersFromStorage :: "localStorage \<Rightarrow> UserAccount option list" where
  "getUsersFromStorage ls = (case parseUsers ls of Inl e \<Rightarrow> [] | Inr users \<Rightarrow> users)"

definition saveComplaintsToStorage :: "Complaint list \<Rightarrow> localStorage \<Rightarrow> localStorage" where
  "saveComplaintsToStorage complaints ls = ls\<lparr>DB_KEY := Items complaints\<rparr>"

definition saveUsersToStorage ::
  "UserAccount option list \<Rightarrow> localStorage \<Rightarrow> localStorage" where
  "saveUsersToStorage users ls = ls\<lparr>USERS_KEY := Items users\<rparr>"

subsection \<open>Application state (lines 138-159)\<close>

datatype AuthMode = LoginMode | RegisterMode

datatype View = AuthView | DashboardView

text \<open>A filter of type \<^verbatim>\<open>T | 'All'\<close>.\<close>

datatype 'a orAll = AllValues | Only 'a

text \<open>
  The \<^verbatim>\<open>useState\<close> cells of \<^verbatim>\<open>App\<close>, with the browser's storage. The cell
  \<^verbatim>\<open>text\<close> is the field \<open>textVal\<close>. \<^verbatim>\<open>categoryFilter\<close> is a plain string in the
  source, \<^verbatim>\<open>'All'\<close> standing for no constraint.
\<close>

record app =
  currentUser :: "UserSession option"
  authMode :: AuthMode
  view :: View
  complaints :: "Complaint list"
  loading :: bool
  searchQuery :: string
  statusFilter :: "Status orAll"
  urgencyFilter :: "Urgency orAll"
  categoryFilter :: string
  textVal :: string
  selectedCat :: string
  img :: "string option"
  loginRole :: Role
  userVal :: string
  passVal :: string
  nameVal :: string
  storage :: localStorage

text \<open>The calls of \<^verbatim>\<open>alert\<close>, and the text each one shows.\<close>

datatype alert =
    UsernameExists
  | RegistrationSuccessful
  | AccessDenied Role
  | InvalidCredentials
  | AIProcessingError

definition roleText :: "Role \<Rightarrow> string" where
  "roleText r = (case r of User \<Rightarrow> ''user'' | Admin \<Rightarrow> ''admin'')"

definition alertText :: "alert \<Rightarrow> string" where
  "alertText a =
     (case a of
        UsernameExists \<Rightarrow> ''Username already exists!''
      | RegistrationSuccessful \<Rightarrow> ''Registration successful! Please login.''
      | AccessDenied r \<Rightarrow> ''Access Denied: This account is registered as a '' @ roleText r @ ''.''
      | InvalidCredentials \<Rightarrow> ''Invalid credentials!''
      | AIProcessingError \<Rightarrow> ''AI Processing Error.'')"

subsection \<open>Registration and login (lines 165-206)\<close>

text \<open>\<^verbatim>\<open>a || b\<close> on strings: the empty string is falsy.\<close>

definition orString :: "string \<Rightarrow> string \<Rightarrow> string" where
  "orString a b = (if a = [] then b else a)"

text \<open>
  The scan of line 168 is outside any \<^verbatim>\<open>try\<close>: a TypeError leaves the handler before
  it has called \<^verbatim>\<open>alert\<close> or changed anything (\<open>Inl\<close>). When the scan returns
  \<^verbatim>\<open>undefined\<close> the new record is appended to a copy of the loaded array.
\<close>

definition handleRegister :: "app \<Rightarrow> (error + alert) \<times> app" where
  "handleRegister s =
     (let users = getUsersFromStorage (storage s) in
      case jsFind (\<lambda>u. username u = userVal s) users of
        Inl e \<Rightarrow> (Inl e, s)
      | Inr (Some u) \<Rightarrow> (Inr UsernameExists, s)
      | Inr None \<Rightarrow>
          let newUser = \<lparr>username = userVal s, password = passVal s,
                         name = orString (nameVal s) (userVal s), role = User\<rparr>;
              updatedUsers = users @ [Some newUser]
          in (Inr RegistrationSuccessful,
              s\<lparr>storage := saveUsersToStorage updatedUsers (storage s),
                authMode := LoginMode, passVal := []\<rparr>))"

text \<open>Line 190 scans in the same way; \<open>Inr None\<close> is a login without an alert.\<close>

definition handleLogin :: "app \<Rightarrow> (error + alert option) \<times> app" where
  "handleLogin s =
     (let users = getUsersFromStorage (storage s);
          foundUser = jsFind (\<lambda>u. username u = userVal s \<and> password u = passVal s) users
      in case foundUser of
           Inl e \<Rightarrow> (Inl e, s)
         | Inr (Some u) \<Rightarrow>
             if role u \<noteq> loginRole s then (Inr (Some (AccessDenied (role u))), s)
             else (Inr None,
                   s\<lparr>currentUser := Some \<lparr>id_s = username u, role_s = role u, name_s = name u\<rparr>,
                     view := DashboardView\<rparr>)
         | Inr None \<Rightarrow> (Inr (Some InvalidCredentials), s))"

subsection \<open>Submission (lines 216-260)\<close>

text \<open>
  \<^verbatim>\<open>String.prototype.trim\<close> strips white space and line terminators. Below 256
  these are tab, line feed, vertical tab, form feed, carriage return (9 to 13), space
  (32) and the no-break space (160).
\<close>

definition isSpace :: "char \<Rightarrow> bool" where
  "isSpace c =
     (let n = (of_char c :: nat) in n = 32 \<or> (9 \<le> n \<and> n \<le> 13) \<or> n = 160)"

definition trim :: "string \<Rightarrow> string" where
  "trim t = rev (dropWhile isSpace (rev (dropWhile isSpace t)))"

text \<open>\<^verbatim>\<open>Number.prototype.toString\<close> on a natural number, and \<^verbatim>\<open>padStart\<close>.\<close>

fun toString :: "nat \<Rightarrow> string" where
  "toString n =
     (if n < 10 then [char_of (48 + n)]
      else toString (n div 10) @ [char_of (48 + n mod 10)])"

definition padStart :: "nat \<Rightarrow> char \<Rightarrow> string \<Rightarrow> string" where
  "padStart n c t = replicate (n - length t) c @ t"

text \<open>
  The value the reply parses to, read through \<^verbatim>\<open>result.translated\<close> and
  \<^verbatim>\<open>result.urgency\<close> (the field \<open>urgency_r\<close>): \<open>None\<close> is a field that is missing
  or \<^verbatim>\<open>null\<close>, \<open>Some t\<close> a field holding the string \<open>t\<close>, any string at all. Both
  fields go into a complaint as they are, so they are strings as the fields of
  \<open>Complaint\<close> are.
\<close>

record classification =
  translated :: "string option"
  urgency_r :: "string option"

text \<open>\<^verbatim>\<open>field || fallback\<close>: a missing field and the empty string are falsy.\<close>

definition orField :: "string option \<Rightarrow> string \<Rightarrow> string" where
  "orField f b = (case f of None \<Rightarrow> b | Some t \<Rightarrow> orString t b)"

text \<open>
  \<^verbatim>\<open>response.text\<close>: missing or empty (\<open>NoText\<close>), a text \<^verbatim>\<open>JSON.parse\<close> rejects
  (\<open>NotJson\<close>), the text \<^verbatim>\<open>null\<close> (\<open>JsonNull\<close>), or the text of any other JSON value,
  given by what its two fields read as.
\<close>

datatype responseText = NoText | NotJson | JsonNull | JsonValue classification

text \<open>The awaited \<^verbatim>\<open>ai.models.generateContent\<close>: the promise rejects, or resolves to
  a response.\<close>

datatype generateContent = Rejected | Response responseText

text \<open>
  Lines 222-234, the part of the \<^verbatim>\<open>try\<close> block that can throw: \<open>None\<close> is control
  reaching the \<^verbatim>\<open>catch\<close>. \<^verbatim>\<open>response.text || '{}'\<close> turns a missing text into the
  empty object; \<^verbatim>\<open>JSON.parse\<close> throws on \<open>NotJson\<close>; reading a property of \<^verbatim>\<open>null\<close>
  throws a TypeError.
\<close>

definition parseResult :: "generateContent \<Rightarrow> classification option" where
  "parseResult api =
     (case api of
        Rejected \<Rightarrow> None
      | Response NoText \<Rightarrow> Some \<lparr>translated = None, urgency_r = None\<rparr>
      | Response NotJson \<Rightarrow> None
      | Response JsonNull \<Rightarrow> None
      | Response (JsonValue r) \<Rightarrow> Some r)"

text \<open>Lines 235-247. \<open>rnd\<close> is the value of \<^verbatim>\<open>Math.floor(Math.random() * 9999)\<close> and
  \<open>now\<close> that of \<^verbatim>\<open>Date.now()\<close>.\<close>

definition newComplaint ::
  "UserSession \<Rightarrow> app \<Rightarrow> classification \<Rightarrow> nat \<Rightarrow> int \<Rightarrow> Complaint" where
  "newComplaint cu s result rnd now =
     \<lparr>id_c = ''CIT-'' @ padStart 4 (CHR ''0'') (toString rnd),
      userId = id_s cu,
      userName = name_s cu,
      originalText = textVal s,
      englishText = orField (translated result) (textVal s),
      category = selectedCat s,
      urgency = orField (urgency_r result) ''Medium'',
      status = Pending,
      image = img s,
      adminComments = [],
      timestamp = now\<rparr>"

definition submitComplaint ::
  "generateContent \<Rightarrow> nat \<Rightarrow> int \<Rightarrow> app \<Rightarrow> alert option \<times> app" where
  "submitComplaint api rnd now s =
     (case currentUser s of
        None \<Rightarrow> (None, s)
      | Some cu \<Rightarrow>
          if trim (textVal s) = [] then (None, s)
          else
            (case parseResult api of
               None \<Rightarrow> (Some AIProcessingError, s\<lparr>loading := False\<rparr>)
             | Some result \<Rightarrow>
                 let updated = newComplaint cu s result rnd now # complaints s
                 in (None,
                     s\<lparr>complaints := updated,
                       storage := saveComplaintsToStorage updated (storage s),
                       textVal := [], img := None, loading := False\<rparr>)))"

subsection \<open>Status update and filter (lines 262-286)\<close>







section \<open>Properties stated on the model\<close>

subsection \<open>Predicates used in the statements\<close>

text \<open>The records of a user array, its \<^verbatim>\<open>null\<close> elements left out.\<close>

primrec records :: "'a option list \<Rightarrow> 'a list" where
  "records [] = []"
| "records (e # es) = (case e of None \<Rightarrow> records es | Some x \<Rightarrow> x # records es)"

text \<open>Some record of the list carries the identifier.\<close>

definition hasUsername :: "string \<Rightarrow> UserAccount list \<Rightarrow> bool" where
  "hasUsername n us = list_ex (\<lambda>u. username u = n) us"

text \<open>
  \<open>uniqueUsernames\<close>: the directory read from a storage holds no identifier twice.
  \<open>storedRecordsOnly\<close>: the user slot, when it holds an array, holds records only, as
  every array does that the program itself has saved.
\<close>

definition uniqueUsernames :: "localStorage \<Rightarrow> bool" where
  "uniqueUsernames ls \<longleftrightarrow> distinct (map username (records (getUsersFromStorage ls)))"

definition storedRecordsOnly :: "localStorage \<Rightarrow> bool" where
  "storedRecordsOnly ls \<longleftrightarrow> (case USERS_KEY ls of Items us \<Rightarrow> None \<notin> set us | _ \<Rightarrow> True)"

text \<open>
  A registration request fills the three form fields; a registration sequence runs
  \<open>handleRegister\<close> on each request in turn.
\<close>

definition setRegistration :: "string \<times> string \<times> string \<Rightarrow> app \<Rightarrow> app" where
  "setRegistration r s =
     (case r of (u, p, n) \<Rightarrow> s\<lparr>userVal := u, passVal := p, nameVal := n\<rparr>)"

fun registerAll :: "app \<Rightarrow> (string \<times> string \<times> string) list \<Rightarrow> app" where
  "registerAll s [] = s"
| "registerAll s (r # rs) = registerAll (snd (handleRegister (setRegistration r s))) rs"

text \<open>A record matches the identifier and the secret typed into the login form.\<close>

definition matchesCredentials :: "app \<Rightarrow> UserAccount \<Rightarrow> bool" where
  "matchesCredentials s u \<longleftrightarrow> username u = userVal s \<and> password u = passVal s"





subsection \<open>Sample data for the concrete instances\<close>

text \<open>A browser with nothing stored, and the application as it starts.\<close>

definition emptyStorage :: localStorage where
  "emptyStorage = \<lparr>DB_KEY = NoItem, USERS_KEY = NoItem\<rparr>"

definition initialApp :: app where
  "initialApp =
     \<lparr>currentUser = None, authMode = LoginMode, view = AuthView, complaints = [],
      loading = False, searchQuery = [], statusFilter = AllValues,
      urgencyFilter = AllValues, categoryFilter = ''All'', textVal = [],
      selectedCat = ''General'', img = None, loginRole = User, userVal = [],
      passVal = [], nameVal = [], storage = emptyStorage\<rparr>"



text \<open>A citizen who is logged in and has typed a complaint about a road.\<close>

definition citizenApp :: app where
  "citizenApp =
     initialApp\<lparr>currentUser := Some \<lparr>id_s = ''asha'', role_s = User, name_s = ''Asha''\<rparr>,
       view := DashboardView, textVal := ''road broken near market'',
       selectedCat := ''Roads''\<rparr>"

text \<open>A stored account that carries the identifier \<^verbatim>\<open>admin\<close> with the citizen role,
  an ordinary account, and a run of four registration requests.\<close>

definition citizenAdmin :: UserAccount where
  "citizenAdmin = \<lparr>username = ''admin'', password = ''pw4'', name = ''Eve'', role = User\<rparr>"

definition sampleUser :: UserAccount where
  "sampleUser = \<lparr>username = ''asha'', password = ''pw1'', name = ''Asha'', role = User\<rparr>"

definition sampleRegistrations :: "(string \<times> string \<times> string) list" where
  "sampleRegistrations =
     [(''asha'', ''pw1'', ''Asha''), (''ravi'', ''pw2'', []), (''asha'', ''pw3'', ''Other''),
      (''admin'', ''pw4'', ''Eve'')]"

subsection \<open>Scanning a user array\<close>

lemma records_map_Some: "records (map Some us) = us"
  by (induction us) simp_all

lemma records_append: "records (xs @ ys) = records xs @ records ys"
  by (induction xs) (simp_all split: option.splits)

lemma map_Some_records: "None \<notin> set xs \<Longrightarrow> map Some (records xs) = xs"
proof (induction xs)
  case Nil
  show ?case by simp
next
  case (Cons e es)
  then show ?case by (cases e) auto
qed

lemma set_records: "u \<in> set (records xs) \<longleftrightarrow> Some u \<in> set xs"
proof (induction xs)
  case Nil
  show ?case by simp
next
  case (Cons e es)
  then show ?case by (cases e) auto
qed

lemma option_list_cases:
  "(\<exists>us. xs = map Some us) \<or> (\<exists>ps ss. xs = map Some ps @ None # ss)"
proof (induction xs)
  case Nil
  then show ?case by simp
next
  case (Cons e es)
  show ?case
  proof (cases e)
    case None
    then have "e # es = map Some [] @ None # es" by simp
    then show ?thesis by (intro disjI2 exI)
  next
    case (Some x)
    from Cons.IH show ?thesis
    proof (elim disjE exE)
      fix us assume "es = map Some us"
      with Some have "e # es = map Some (x # us)" by simp
      then show ?thesis by (intro disjI1 exI)
    next
      fix ps ss assume "es = map Some ps @ None # ss"
      with Some have "e # es = map Some (x # ps) @ None # ss" by simp
      then show ?thesis by (intro disjI2 exI)
    qed
  qed
qed

lemma jsFind_map_Some: "jsFind p (map Some us) = Inr (find p us)"
  by (induction us) simp_all

lemma jsFind_before_null:
  "jsFind p (map Some ps @ None # ss) =
     (case find p ps of None \<Rightarrow> Inl TypeError | Some u \<Rightarrow> Inr (Some u))"
  by (induction ps) simp_all

lemma jsFind_undefined:
  "jsFind p xs = Inr None \<longleftrightarrow> None \<notin> set xs \<and> \<not> list_ex p (records xs)"
  by (induction p xs rule: jsFind.induct) auto

lemma jsFind_throws: "jsFind p xs = Inl e \<Longrightarrow> e = TypeError \<and> None \<in> set xs"
  by (induction p xs rule: jsFind.induct) (auto split: if_splits)

lemma jsFind_found: "jsFind p xs = Inr (Some u) \<Longrightarrow> Some u \<in> set xs \<and> p u"
  by (induction p xs rule: jsFind.induct) (auto split: if_splits)

lemma jsFind_no_null:
  "None \<notin> set xs \<Longrightarrow> jsFind p xs = Inr (find p (records xs))"
  by (induction p xs rule: jsFind.induct) auto

lemma jsFind_append_Some:
  "jsFind p xs = Inr None \<Longrightarrow> jsFind p (xs @ [Some a]) = (if p a then Inr (Some a) else Inr None)"
  by (induction p xs rule: jsFind.induct) (auto split: if_splits)

lemma jsFind_append_found:
  "jsFind p xs = Inr (Some u) \<Longrightarrow> jsFind p (xs @ ys) = Inr (Some u)"
  by (induction p xs rule: jsFind.induct) (auto split: if_splits)

lemma find_username_None: "find (\<lambda>u. username u = n) us = None \<longleftrightarrow> \<not> hasUsername n us"
  by (auto simp: find_None_iff hasUsername_def list_ex_iff)

lemma hasUsername_set: "hasUsername n us \<longleftrightarrow> n \<in> set (map username us)"
  by (auto simp: hasUsername_def list_ex_iff)

subsection \<open>Reading and writing the stores\<close>

lemma pushDefaultAdmin_records:
  "pushDefaultAdmin (map Some us) =
     Inr (map Some (if hasUsername ''admin'' us then us else us @ [defaultAdmin]))"
proof (cases "find (\<lambda>u. username u = ''admin'') us")
  case None
  then show ?thesis
    by (simp add: pushDefaultAdmin_def jsFind_map_Some find_username_None [symmetric])
next
  case (Some u)
  then have "hasUsername ''admin'' us"
    using find_username_None [of "''admin''" us] by simp
  with Some show ?thesis by (simp add: pushDefaultAdmin_def jsFind_map_Some)
qed

lemma pushDefaultAdmin_null:
  "pushDefaultAdmin (map Some ps @ None # ss) =
     (if hasUsername ''admin'' ps then Inr (map Some ps @ None # ss) else Inl TypeError)"
proof (cases "find (\<lambda>u. username u = ''admin'') ps")
  case None
  then show ?thesis
    by (simp add: pushDefaultAdmin_def jsFind_before_null find_username_None [symmetric])
next
  case (Some u)
  then have "hasUsername ''admin'' ps"
    using find_username_None [of "''admin''" ps] by simp
  with Some show ?thesis by (simp add: pushDefaultAdmin_def jsFind_before_null)
qed

lemma pushDefaultAdmin_idem:
  assumes "pushDefaultAdmin xs = Inr ys"
  shows "pushDefaultAdmin ys = Inr ys"
proof (cases "jsFind (\<lambda>u. username u = ''admin'') xs")
  case (Inl e)
  with assms show ?thesis by (simp add: pushDefaultAdmin_def)
next
  case (Inr r)
  show ?thesis
  proof (cases r)
    case None
    with Inr assms have ys: "ys = xs @ [Some defaultAdmin]"
      by (simp add: pushDefaultAdmin_def)
    from Inr None have "jsFind (\<lambda>u. username u = ''admin'') ys = Inr (Some defaultAdmin)"
      by (simp add: ys jsFind_append_Some defaultAdmin_def)
    then show ?thesis by (simp add: pushDefaultAdmin_def)
  next
    case (Some u)
    with Inr assms have "ys = xs" by (simp add: pushDefaultAdmin_def)
    with Inr Some show ?thesis by (simp add: pushDefaultAdmin_def)
  qed
qed

lemma pushDefaultAdmin_nonempty: "pushDefaultAdmin xs = Inr ys \<Longrightarrow> ys \<noteq> []"
  by (cases xs) (auto simp: pushDefaultAdmin_def split: sum.splits option.splits)

lemma getUsers_Items:
  "USERS_KEY ls = Items xs \<Longrightarrow>
   getUsersFromStorage ls = (case pushDefaultAdmin xs of Inl e \<Rightarrow> [] | Inr ys \<Rightarrow> ys)"
  by (simp add: getUsersFromStorage_def parseUsers_def)

lemma getUsers_records:
  "USERS_KEY ls = Items (map Some us) \<Longrightarrow>
   getUsersFromStorage ls =
     map Some (if hasUsername ''admin'' us then us else us @ [defaultAdmin])"
  by (simp add: getUsers_Items pushDefaultAdmin_records)

lemma getUsers_null:
  "USERS_KEY ls = Items (map Some ps @ None # ss) \<Longrightarrow>
   getUsersFromStorage ls =
     (if hasUsername ''admin'' ps then map Some ps @ None # ss else [])"
  by (simp add: getUsers_Items pushDefaultAdmin_null)

lemma getUsers_missing:
  "USERS_KEY ls = NoItem \<or> USERS_KEY ls = EmptyText \<Longrightarrow>
   getUsersFromStorage ls = [Some defaultAdmin]"
  by (auto simp: getUsersFromStorage_def parseUsers_def pushDefaultAdmin_def)

lemma getUsers_unreadable:
  "USERS_KEY ls = BadText \<or> USERS_KEY ls = OtherJson \<Longrightarrow> getUsersFromStorage ls = []"
  by (auto simp: getUsersFromStorage_def parseUsers_def)

lemma getUsers_save:
  "getUsersFromStorage (saveUsersToStorage xs ls) =
     (case pushDefaultAdmin xs of Inl e \<Rightarrow> [] | Inr ys \<Rightarrow> ys)"
  by (simp add: getUsersFromStorage_def parseUsers_def saveUsersToStorage_def)

lemma getUsers_parse:
  "getUsersFromStorage ls \<noteq> [] \<Longrightarrow> \<exists>xs. pushDefaultAdmin xs = Inr (getUsersFromStorage ls)"
  by (cases "USERS_KEY ls")
     (auto simp: getUsersFromStorage_def parseUsers_def split: sum.splits)


lemma getUsers_empty_iff:
  "getUsersFromStorage ls = [] \<longleftrightarrow>
     USERS_KEY ls = BadText \<or> USERS_KEY ls = OtherJson \<or>
     (\<exists>ps ss. USERS_KEY ls = Items (map Some ps @ None # ss) \<and> \<not> hasUsername ''admin'' ps)"
proof (cases "USERS_KEY ls")
  case (Items xs)
  from option_list_cases [of xs] show ?thesis
  proof (elim disjE exE)
    fix us assume xs: "xs = map Some us"
    have "hasUsername ''admin'' us \<Longrightarrow> us \<noteq> []"
      by (auto simp: hasUsername_def)
    with Items xs have "getUsersFromStorage ls \<noteq> []"
      by (auto simp: getUsers_records)
    moreover have "None \<notin> set xs" using xs by auto
    then have "\<And>ps ss. xs \<noteq> map Some ps @ None # ss" by auto
    ultimately show ?thesis using Items by auto
  next
    fix ps ss assume xs: "xs = map Some ps @ None # ss"
    with Items have "getUsersFromStorage ls =
        (if hasUsername ''admin'' ps then map Some ps @ None # ss else [])"
      by (simp add: getUsers_null)
    moreover have "\<And>ps' ss'. map Some ps @ None # ss = map Some ps' @ None # ss' \<Longrightarrow> ps' = ps"
    proof -
      fix ps' ss' assume e: "map Some ps @ None # ss = map Some ps' @ None # ss'"
      have "takeWhile (\<lambda>x. x \<noteq> None) (map Some ps @ None # ss) = map Some ps"
        by (induction ps) simp_all
      moreover have "takeWhile (\<lambda>x. x \<noteq> None) (map Some ps' @ None # ss') = map Some ps'"
        by (induction ps') simp_all
      ultimately have "map Some ps = map Some ps'" using e by simp
      then show "ps' = ps" by (simp add: inj_map_eq_map)
    qed
    ultimately show ?thesis using Items xs by auto
  qed
qed (simp_all add: getUsers_missing getUsers_unreadable)

lemma storedRecordsOnly_no_null:
  assumes "storedRecordsOnly ls"
  shows "None \<notin> set (getUsersFromStorage ls)"
proof (cases "USERS_KEY ls")
  case (Items xs)
  with assms have "None \<notin> set xs" by (simp add: storedRecordsOnly_def)
  then have "xs = map Some (records xs)" by (simp add: map_Some_records)
  with Items have "USERS_KEY ls = Items (map Some (records xs))" by simp
  from getUsers_records [OF this] show ?thesis by auto
qed (auto simp: getUsers_missing getUsers_unreadable)


subsection \<open>Registration keeps identifiers unique\<close>

lemma handleRegister_throws:
  assumes "jsFind (\<lambda>u. username u = userVal s) (getUsersFromStorage (storage s)) = Inl e"
  shows "handleRegister s = (Inl e, s)"
  using assms by (simp add: handleRegister_def Let_def)

lemma handleRegister_duplicate:
  assumes "jsFind (\<lambda>u. username u = userVal s) (getUsersFromStorage (storage s)) = Inr (Some u)"
  shows "handleRegister s = (Inr UsernameExists, s)"
  using assms by (simp add: handleRegister_def Let_def)

lemma handleRegister_fresh:
  assumes "jsFind (\<lambda>u. username u = userVal s) (getUsersFromStorage (storage s)) = Inr None"
  shows "handleRegister s =
    (Inr RegistrationSuccessful,
     s\<lparr>storage := (storage s)\<lparr>USERS_KEY := Items (getUsersFromStorage (storage s) @
          [Some \<lparr>username = userVal s, password = passVal s,
                 name = (if nameVal s = [] then userVal s else nameVal s), role = User\<rparr>])\<rparr>,
       authMode := LoginMode, passVal := []\<rparr>)"
  using assms
  by (simp add: handleRegister_def Let_def saveUsersToStorage_def orString_def)

lemma handleRegister_cases:
  obtains (throws) "None \<in> set (getUsersFromStorage (storage s))"
      "handleRegister s = (Inl TypeError, s)"
  | (duplicate) u where "Some u \<in> set (getUsersFromStorage (storage s))"
      "username u = userVal s" "handleRegister s = (Inr UsernameExists, s)"
  | (fresh) "None \<notin> set (getUsersFromStorage (storage s))"
      "\<not> hasUsername (userVal s) (records (getUsersFromStorage (storage s)))"
      "handleRegister s =
        (Inr RegistrationSuccessful,
         s\<lparr>storage := (storage s)\<lparr>USERS_KEY := Items (getUsersFromStorage (storage s) @
              [Some \<lparr>username = userVal s, password = passVal s,
                     name = (if nameVal s = [] then userVal s else nameVal s), role = User\<rparr>])\<rparr>,
           authMode := LoginMode, passVal := []\<rparr>)"
proof (cases "jsFind (\<lambda>u. username u = userVal s) (getUsersFromStorage (storage s))")
  case (Inl e)
  from jsFind_throws [OF Inl] have "e = TypeError" "None \<in> set (getUsersFromStorage (storage s))"
    by simp_all
  with handleRegister_throws [OF Inl] show ?thesis by (intro throws) simp_all
next
  case (Inr r)
  show ?thesis
  proof (cases r)
    case None
    with Inr have n: "jsFind (\<lambda>u. username u = userVal s) (getUsersFromStorage (storage s)) = Inr None"
      by simp
    then have "None \<notin> set (getUsersFromStorage (storage s))"
      "\<not> hasUsername (userVal s) (records (getUsersFromStorage (storage s)))"
      by (simp_all add: jsFind_undefined hasUsername_def)
    with handleRegister_fresh [OF n] show ?thesis by (intro fresh)
  next
    case (Some u)
    with Inr have f: "jsFind (\<lambda>u. username u = userVal s) (getUsersFromStorage (storage s)) = Inr (Some u)"
      by simp
    from jsFind_found [OF f] handleRegister_duplicate [OF f] show ?thesis
      by (intro duplicate [of u]) simp_all
  qed
qed

lemma hasUsername_found:
  assumes "None \<notin> set xs" "hasUsername n (records xs)"
  shows "\<exists>u. jsFind (\<lambda>u. username u = n) xs = Inr (Some u)"
proof -
  from assms(2) have "find (\<lambda>u. username u = n) (records xs) \<noteq> None"
    by (simp add: find_username_None)
  with jsFind_no_null [OF assms(1), of "\<lambda>u. username u = n"] show ?thesis by auto
qed

lemma handleRegister_exists_iff:
  assumes "None \<notin> set (getUsersFromStorage (storage s))"
  shows "fst (handleRegister s) = Inr UsernameExists \<longleftrightarrow>
         hasUsername (userVal s) (records (getUsersFromStorage (storage s)))"
proof (cases s rule: handleRegister_cases)
  case throws
  with assms show ?thesis by simp
next
  case (duplicate u)
  then have "hasUsername (userVal s) (records (getUsersFromStorage (storage s)))"
    by (auto simp: hasUsername_def list_ex_iff set_records)
  with duplicate show ?thesis by simp
next
  case fresh
  then show ?thesis by simp
qed

lemma handleRegister_null:
  assumes "getUsersFromStorage (storage s) = map Some ps @ None # ss"
  shows "handleRegister s =
    (if hasUsername (userVal s) ps then Inr UsernameExists else Inl TypeError, s)"
proof (cases "find (\<lambda>u. username u = userVal s) ps")
  case None
  then have "\<not> hasUsername (userVal s) ps" by (simp add: find_username_None)
  moreover from None assms
  have "jsFind (\<lambda>u. username u = userVal s) (getUsersFromStorage (storage s)) = Inl TypeError"
    by (simp add: jsFind_before_null)
  ultimately show ?thesis by (simp add: handleRegister_throws)
next
  case (Some u)
  then have "hasUsername (userVal s) ps"
    using find_username_None [of "userVal s" ps] by simp
  moreover from Some assms
  have "jsFind (\<lambda>u. username u = userVal s) (getUsersFromStorage (storage s)) = Inr (Some u)"
    by (simp add: jsFind_before_null)
  ultimately show ?thesis by (simp add: handleRegister_duplicate)
qed

lemma stored_after_fresh:
  assumes "None \<notin> set xs" "USERS_KEY ls = Items (xs @ [Some new])"
  shows "getUsersFromStorage ls =
    map Some (if hasUsername ''admin'' (records xs @ [new]) then records xs @ [new]
              else records xs @ [new] @ [defaultAdmin])"
proof -
  from assms(1) have "xs @ [Some new] = map Some (records xs @ [new])"
    by (simp add: map_Some_records)
  with assms(2) have "USERS_KEY ls = Items (map Some (records xs @ [new]))" by simp
  from getUsers_records [OF this] show ?thesis by simp
qed

lemma handleRegister_unique_step:
  assumes "uniqueUsernames (storage s)"
  shows "uniqueUsernames (storage (snd (handleRegister s)))"
proof (cases s rule: handleRegister_cases)
  case throws
  with assms show ?thesis by simp
next
  case (duplicate u)
  with assms show ?thesis by simp
next
  case fresh
  let ?xs = "getUsersFromStorage (storage s)"
  let ?new = "\<lparr>username = userVal s, password = passVal s,
                name = (if nameVal s = [] then userVal s else nameVal s), role = User\<rparr>"
  have k: "USERS_KEY (storage (snd (handleRegister s))) = Items (?xs @ [Some ?new])"
    by (simp add: fresh(3))
  have d: "distinct (map username (records ?xs @ [?new]))"
    using assms fresh(2) by (simp add: uniqueUsernames_def hasUsername_set)
  show ?thesis
    unfolding uniqueUsernames_def stored_after_fresh [OF fresh(1) k]
    using d by (auto simp: records_map_Some hasUsername_set defaultAdmin_def)
qed

lemma handleRegister_records_step:
  assumes "storedRecordsOnly (storage s)"
  shows "storedRecordsOnly (storage (snd (handleRegister s)))"
proof (cases s rule: handleRegister_cases)
  case throws
  with assms show ?thesis by simp
next
  case (duplicate u)
  with assms show ?thesis by simp
next
  case fresh
  then show ?thesis by (simp add: storedRecordsOnly_def)
qed

lemma storage_setRegistration: "storage (setRegistration r s) = storage s"
  by (cases r) (simp add: setRegistration_def)

lemma registerAll_unique:
  "uniqueUsernames (storage s) \<Longrightarrow> uniqueUsernames (storage (registerAll s rs))"
proof (induction rs arbitrary: s)
  case Nil
  then show ?case by simp
next
  case (Cons r rs)
  from Cons.prems have "uniqueUsernames (storage (setRegistration r s))"
    by (simp add: storage_setRegistration)
  then have "uniqueUsernames (storage (snd (handleRegister (setRegistration r s))))"
    by (rule handleRegister_unique_step)
  then show ?case by (simp add: Cons.IH)
qed

lemma registerAll_records:
  "storedRecordsOnly (storage s) \<Longrightarrow> storedRecordsOnly (storage (registerAll s rs))"
proof (induction rs arbitrary: s)
  case Nil
  then show ?case by simp
next
  case (Cons r rs)
  from Cons.prems have "storedRecordsOnly (storage (setRegistration r s))"
    by (simp add: storage_setRegistration)
  then have "storedRecordsOnly (storage (snd (handleRegister (setRegistration r s))))"
    by (rule handleRegister_records_step)
  then show ?case by (simp add: Cons.IH)
qed

lemma uniqueUsernames_stored:
  assumes "storedRecordsOnly ls" "uniqueUsernames ls" "USERS_KEY ls = Items us"
  shows "None \<notin> set us \<and> distinct (map username (records us))"
proof -
  from assms(1,3) have n: "None \<notin> set us" by (simp add: storedRecordsOnly_def)
  then have "us = map Some (records us)" by (simp add: map_Some_records)
  with assms(3) have "USERS_KEY ls = Items (map Some (records us))" by simp
  from getUsers_records [OF this] assms(2) have "distinct (map username (records us))"
    by (simp add: uniqueUsernames_def records_map_Some split: if_splits)
  with n show ?thesis by simp
qed

text \<open>
  C4. A scan that meets no \<^verbatim>\<open>null\<close> element, as on every directory the program has
  stored, answers "username exists" exactly when the identifier typed is that of a record
  of the loaded directory, and succeeds otherwise. The duplicate answer changes nothing. A
  success stores the loaded directory followed by one new record with the citizen role,
  leaves the complaint slot alone, and apart from the storage only switches the form to
  login and clears the secret. The only other outcome is the TypeError of a scan that
  reaches a \<^verbatim>\<open>null\<close> element, which changes nothing either: on a directory with a
  \<^verbatim>\<open>null\<close> element the answer is "username exists" when a record before the first
  \<^verbatim>\<open>null\<close> has the identifier, and the TypeError otherwise. Hence every sequence of
  registrations keeps the directory free of repeated identifiers, keeps the stored array
  free of \<^verbatim>\<open>null\<close>, and with both the stored collection holds no identifier twice; the
  empty storage has both properties.
\<close>

theorem handleRegister_unique:
  "(None \<notin> set (getUsersFromStorage (storage s)) \<longrightarrow>
      (fst (handleRegister s) = Inr UsernameExists \<longleftrightarrow>
         hasUsername (userVal s) (records (getUsersFromStorage (storage s)))) \<and>
      (fst (handleRegister s) \<noteq> Inr UsernameExists \<longrightarrow>
         fst (handleRegister s) = Inr RegistrationSuccessful)) \<and>
   (fst (handleRegister s) = Inr UsernameExists \<longrightarrow> snd (handleRegister s) = s) \<and>
   (fst (handleRegister s) = Inr RegistrationSuccessful \<longrightarrow>
      USERS_KEY (storage (snd (handleRegister s))) =
        Items (getUsersFromStorage (storage s) @
          [Some \<lparr>username = userVal s, password = passVal s,
                 name = (if nameVal s = [] then userVal s else nameVal s), role = User\<rparr>]) \<and>
      DB_KEY (storage (snd (handleRegister s))) = DB_KEY (storage s) \<and>
      None \<notin> set (getUsersFromStorage (storage s)) \<and>
      \<not> hasUsername (userVal s) (records (getUsersFromStorage (storage s))) \<and>
      snd (handleRegister s) =
        s\<lparr>storage := storage (snd (handleRegister s)), authMode := LoginMode, passVal := []\<rparr>) \<and>
   (\<forall>e. fst (handleRegister s) = Inl e \<longrightarrow>
      e = TypeError \<and> None \<in> set (getUsersFromStorage (storage s)) \<and>
      snd (handleRegister s) = s) \<and>
   (\<forall>ps ss. getUsersFromStorage (storage s) = map Some ps @ None # ss \<longrightarrow>
      handleRegister s =
        (if hasUsername (userVal s) ps then Inr UsernameExists else Inl TypeError, s)) \<and>
   (uniqueUsernames (storage s) \<longrightarrow> uniqueUsernames (storage (registerAll s rs))) \<and>
   (storedRecordsOnly (storage s) \<longrightarrow>
      storedRecordsOnly (storage (registerAll s rs)) \<and>
      None \<notin> set (getUsersFromStorage (storage (registerAll s rs)))) \<and>
   (storedRecordsOnly (storage s) \<and> uniqueUsernames (storage s) \<longrightarrow>
      (\<forall>us. USERS_KEY (storage (registerAll s rs)) = Items us \<longrightarrow>
            None \<notin> set us \<and> distinct (map username (records us)))) \<and>
   uniqueUsernames emptyStorage \<and> storedRecordsOnly emptyStorage"
proof -
  have a: "None \<notin> set (getUsersFromStorage (storage s)) \<longrightarrow>
      (fst (handleRegister s) = Inr UsernameExists \<longleftrightarrow>
         hasUsername (userVal s) (records (getUsersFromStorage (storage s)))) \<and>
      (fst (handleRegister s) \<noteq> Inr UsernameExists \<longrightarrow>
         fst (handleRegister s) = Inr RegistrationSuccessful)"
  proof (intro impI conjI)
    assume n: "None \<notin> set (getUsersFromStorage (storage s))"
    then show "fst (handleRegister s) = Inr UsernameExists \<longleftrightarrow>
         hasUsername (userVal s) (records (getUsersFromStorage (storage s)))"
      by (rule handleRegister_exists_iff)
    assume "fst (handleRegister s) \<noteq> Inr UsernameExists"
    with n show "fst (handleRegister s) = Inr RegistrationSuccessful"
      by (cases s rule: handleRegister_cases) simp_all
  qed
  have b: "fst (handleRegister s) = Inr UsernameExists \<longrightarrow> snd (handleRegister s) = s"
    by (cases s rule: handleRegister_cases) simp_all
  have c: "fst (handleRegister s) = Inr RegistrationSuccessful \<longrightarrow>
      USERS_KEY (storage (snd (handleRegister s))) =
        Items (getUsersFromStorage (storage s) @
          [Some \<lparr>username = userVal s, password = passVal s,
                 name = (if nameVal s = [] then userVal s else nameVal s), role = User\<rparr>]) \<and>
      DB_KEY (storage (snd (handleRegister s))) = DB_KEY (storage s) \<and>
      None \<notin> set (getUsersFromStorage (storage s)) \<and>
      \<not> hasUsername (userVal s) (records (getUsersFromStorage (storage s))) \<and>
      snd (handleRegister s) =
        s\<lparr>storage := storage (snd (handleRegister s)), authMode := LoginMode, passVal := []\<rparr>"
    by (cases s rule: handleRegister_cases) simp_all
  have d: "\<forall>e. fst (handleRegister s) = Inl e \<longrightarrow>
      e = TypeError \<and> None \<in> set (getUsersFromStorage (storage s)) \<and>
      snd (handleRegister s) = s"
    by (cases s rule: handleRegister_cases) simp_all
  have d': "\<forall>ps ss. getUsersFromStorage (storage s) = map Some ps @ None # ss \<longrightarrow>
      handleRegister s =
        (if hasUsername (userVal s) ps then Inr UsernameExists else Inl TypeError, s)"
    using handleRegister_null by blast
  have e: "uniqueUsernames (storage s) \<longrightarrow> uniqueUsernames (storage (registerAll s rs))"
    using registerAll_unique by blast
  have f: "storedRecordsOnly (storage s) \<longrightarrow>
      storedRecordsOnly (storage (registerAll s rs)) \<and>
      None \<notin> set (getUsersFromStorage (storage (registerAll s rs)))"
    using registerAll_records storedRecordsOnly_no_null by blast
  have g: "storedRecordsOnly (storage s) \<and> uniqueUsernames (storage s) \<longrightarrow>
      (\<forall>us. USERS_KEY (storage (registerAll s rs)) = Items us \<longrightarrow>
            None \<notin> set us \<and> distinct (map username (records us)))"
    using registerAll_records registerAll_unique uniqueUsernames_stored by blast
  have h: "uniqueUsernames emptyStorage \<and> storedRecordsOnly emptyStorage"
    by (simp add: uniqueUsernames_def storedRecordsOnly_def emptyStorage_def getUsers_missing)
  from a b c d d' e f g h show ?thesis by blast
qed

lemma sampleRegistrations_result:
  "USERS_KEY (storage (registerAll initialApp sampleRegistrations)) =
     Items [Some defaultAdmin,
            Some \<lparr>username = ''asha'', password = ''pw1'', name = ''Asha'', role = User\<rparr>,
            Some \<lparr>username = ''ravi'', password = ''pw2'', name = ''ravi'', role = User\<rparr>]"
  by code_simp

text \<open>
  Four requests on an empty browser, two of them for identifiers already taken: the stored
  collection is the seed and the two new accounts, with distinct identifiers.
\<close>

theorem handleRegister_unique_witness:
  "uniqueUsernames (storage initialApp) \<and> storedRecordsOnly (storage initialApp) \<and>
   distinct (map username
     [defaultAdmin,
      \<lparr>username = ''asha'', password = ''pw1'', name = ''Asha'', role = User\<rparr>,
      \<lparr>username = ''ravi'', password = ''pw2'', name = ''ravi'', role = User\<rparr>]) \<and>
   fst (handleRegister (initialApp\<lparr>userVal := ''admin''\<rparr>)) = Inr UsernameExists"
proof -
  let ?a = "initialApp\<lparr>userVal := ''admin''\<rparr>"
  have u: "uniqueUsernames (storage initialApp) \<and> storedRecordsOnly (storage initialApp)"
    using handleRegister_unique [of initialApp "[]"] by (simp add: initialApp_def)
  from handleRegister_unique [of initialApp sampleRegistrations] u
  have "\<forall>us. USERS_KEY (storage (registerAll initialApp sampleRegistrations)) = Items us \<longrightarrow>
            None \<notin> set us \<and> distinct (map username (records us))"
    by blast
  with sampleRegistrations_result
  have "distinct (map username (records
     [Some defaultAdmin,
      Some \<lparr>username = ''asha'', password = ''pw1'', name = ''Asha'', role = User\<rparr>,
      Some \<lparr>username = ''ravi'', password = ''pw2'', name = ''ravi'', role = User\<rparr>]))"
    by blast
  then have d: "distinct (map username
     [defaultAdmin,
      \<lparr>username = ''asha'', password = ''pw1'', name = ''Asha'', role = User\<rparr>,
      \<lparr>username = ''ravi'', password = ''pw2'', name = ''ravi'', role = User\<rparr>])"
    by simp
  have l: "getUsersFromStorage (storage ?a) = [Some defaultAdmin]"
    by (simp add: initialApp_def emptyStorage_def getUsers_missing)
  then have "None \<notin> set (getUsersFromStorage (storage ?a))"
    "hasUsername (userVal ?a) (records (getUsersFromStorage (storage ?a)))"
    by (simp_all add: hasUsername_def defaultAdmin_def)
  with handleRegister_unique [of ?a "[]"]
  have r: "fst (handleRegister ?a) = Inr UsernameExists"
    by blast
  from u d r show ?thesis by blast
qed

subsection \<open>The default administrator\<close>

lemma getUsers_finds_admin:
  assumes "getUsersFromStorage ls \<noteq> []"
  shows "\<exists>u. jsFind (\<lambda>u. username u = ''admin'') (getUsersFromStorage ls) = Inr (Some u)"
proof -
  let ?ys = "getUsersFromStorage ls"
  from getUsers_parse [OF assms] obtain xs where "pushDefaultAdmin xs = Inr ?ys" ..
  then have i: "pushDefaultAdmin ?ys = Inr ?ys" by (rule pushDefaultAdmin_idem)
  show ?thesis
  proof (cases "jsFind (\<lambda>u. username u = ''admin'') ?ys")
    case (Inl e)
    with i show ?thesis by (simp add: pushDefaultAdmin_def)
  next
    case (Inr r)
    with i show ?thesis by (cases r) (simp_all add: pushDefaultAdmin_def)
  qed
qed

lemma handleRegister_admin:
  assumes "userVal s = ''admin''"
  shows "(getUsersFromStorage (storage s) \<noteq> [] \<longrightarrow> handleRegister s = (Inr UsernameExists, s)) \<and>
    (getUsersFromStorage (storage s) = [] \<longrightarrow>
       fst (handleRegister s) = Inr RegistrationSuccessful \<and>
       USERS_KEY (storage (snd (handleRegister s))) =
         Items [Some \<lparr>username = ''admin'', password = passVal s,
                      name = (if nameVal s = [] then ''admin'' else nameVal s), role = User\<rparr>])"
proof (intro conjI impI)
  assume "getUsersFromStorage (storage s) \<noteq> []"
  from getUsers_finds_admin [OF this] assms obtain u where
    "jsFind (\<lambda>u. username u = userVal s) (getUsersFromStorage (storage s)) = Inr (Some u)"
    by auto
  then show "handleRegister s = (Inr UsernameExists, s)" by (rule handleRegister_duplicate)
next
  assume e: "getUsersFromStorage (storage s) = []"
  then have "jsFind (\<lambda>u. username u = userVal s) (getUsersFromStorage (storage s)) = Inr None"
    by simp
  from handleRegister_fresh [OF this] e assms
  show "fst (handleRegister s) = Inr RegistrationSuccessful"
    and "USERS_KEY (storage (snd (handleRegister s))) =
         Items [Some \<lparr>username = ''admin'', password = passVal s,
                      name = (if nameVal s = [] then ''admin'' else nameVal s), role = User\<rparr>]"
    by simp_all
qed




text \<open>
  C10, as the code has it. For every stored array of records the seed is appended exactly
  when no stored record has the identifier \<^verbatim>\<open>admin\<close>, whatever the roles; for a stored
  array with a \<^verbatim>\<open>null\<close> element no seed is appended. The collection holding only a
  citizen with that identifier loads without any administrator. Registering the identifier
  \<^verbatim>\<open>admin\<close> is refused exactly when the loaded directory is not empty, and succeeds,
  storing the identifier with the citizen role, when it is empty. The loaded directory is
  empty exactly when the user slot holds text that is not JSON, a JSON value that is not an
  array, or an array with a \<^verbatim>\<open>null\<close> element and no record of that identifier before
  it; so the refusal holds whenever the slot is absent, empty or holds an array of records.
\<close>

theorem seed_keyed_on_username:
  "(\<forall>us. USERS_KEY ls = Items (map Some us) \<longrightarrow>
      (getUsersFromStorage ls = map Some (us @ [defaultAdmin]) \<longleftrightarrow> \<not> hasUsername ''admin'' us) \<and>
      (getUsersFromStorage ls = map Some us \<longleftrightarrow> hasUsername ''admin'' us)) \<and>
   (\<forall>ps ss. USERS_KEY ls = Items (map Some ps @ None # ss) \<longrightarrow>
      getUsersFromStorage ls =
        (if hasUsername ''admin'' ps then map Some ps @ None # ss else [])) \<and>
   username citizenAdmin = ''admin'' \<and> role citizenAdmin = User \<and>
   \<not> list_ex (\<lambda>u. role u = Admin)
       (records (getUsersFromStorage \<lparr>DB_KEY = NoItem, USERS_KEY = Items [Some citizenAdmin]\<rparr>)) \<and>
   (userVal s = ''admin'' \<longrightarrow>
      (fst (handleRegister s) = Inr UsernameExists \<longleftrightarrow> getUsersFromStorage (storage s) \<noteq> []) \<and>
      (getUsersFromStorage (storage s) \<noteq> [] \<longrightarrow> handleRegister s = (Inr UsernameExists, s)) \<and>
      (getUsersFromStorage (storage s) = [] \<longrightarrow>
         fst (handleRegister s) = Inr RegistrationSuccessful \<and>
         USERS_KEY (storage (snd (handleRegister s))) =
           Items [Some \<lparr>username = ''admin'', password = passVal s,
                        name = (if nameVal s = [] then ''admin'' else nameVal s),
                        role = User\<rparr>])) \<and>
   (getUsersFromStorage ls = [] \<longleftrightarrow>
      USERS_KEY ls = BadText \<or> USERS_KEY ls = OtherJson \<or>
      (\<exists>ps ss. USERS_KEY ls = Items (map Some ps @ None # ss) \<and> \<not> hasUsername ''admin'' ps)) \<and>
   (USERS_KEY (storage s) = NoItem \<or> USERS_KEY (storage s) = EmptyText \<or>
    (\<exists>us. USERS_KEY (storage s) = Items (map Some us)) \<longrightarrow>
      getUsersFromStorage (storage s) \<noteq> [])"
proof -
  have a: "\<forall>us. USERS_KEY ls = Items (map Some us) \<longrightarrow>
      (getUsersFromStorage ls = map Some (us @ [defaultAdmin]) \<longleftrightarrow> \<not> hasUsername ''admin'' us) \<and>
      (getUsersFromStorage ls = map Some us \<longleftrightarrow> hasUsername ''admin'' us)"
    by (simp add: getUsers_records)
  have b: "\<forall>ps ss. USERS_KEY ls = Items (map Some ps @ None # ss) \<longrightarrow>
      getUsersFromStorage ls =
        (if hasUsername ''admin'' ps then map Some ps @ None # ss else [])"
    using getUsers_null by blast
  have c: "username citizenAdmin = ''admin'' \<and> role citizenAdmin = User"
    by (simp add: citizenAdmin_def)
  have d: "\<not> list_ex (\<lambda>u. role u = Admin)
       (records (getUsersFromStorage \<lparr>DB_KEY = NoItem, USERS_KEY = Items [Some citizenAdmin]\<rparr>))"
    by (simp add: getUsersFromStorage_def parseUsers_def pushDefaultAdmin_def citizenAdmin_def)
  have e: "userVal s = ''admin'' \<longrightarrow>
      (fst (handleRegister s) = Inr UsernameExists \<longleftrightarrow> getUsersFromStorage (storage s) \<noteq> []) \<and>
      (getUsersFromStorage (storage s) \<noteq> [] \<longrightarrow> handleRegister s = (Inr UsernameExists, s)) \<and>
      (getUsersFromStorage (storage s) = [] \<longrightarrow>
         fst (handleRegister s) = Inr RegistrationSuccessful \<and>
         USERS_KEY (storage (snd (handleRegister s))) =
           Items [Some \<lparr>username = ''admin'', password = passVal s,
                        name = (if nameVal s = [] then ''admin'' else nameVal s),
                        role = User\<rparr>])"
  proof
    assume "userVal s = ''admin''"
    from handleRegister_admin [OF this] show "(fst (handleRegister s) = Inr UsernameExists \<longleftrightarrow> getUsersFromStorage (storage s) \<noteq> []) \<and>
      (getUsersFromStorage (storage s) \<noteq> [] \<longrightarrow> handleRegister s = (Inr UsernameExists, s)) \<and>
      (getUsersFromStorage (storage s) = [] \<longrightarrow>
         fst (handleRegister s) = Inr RegistrationSuccessful \<and>
         USERS_KEY (storage (snd (handleRegister s))) =
           Items [Some \<lparr>username = ''admin'', password = passVal s,
                        name = (if nameVal s = [] then ''admin'' else nameVal s),
                        role = User\<rparr>])"
      by (cases "getUsersFromStorage (storage s) = []") simp_all
  qed
  have f: "getUsersFromStorage ls = [] \<longleftrightarrow>
      USERS_KEY ls = BadText \<or> USERS_KEY ls = OtherJson \<or>
      (\<exists>ps ss. USERS_KEY ls = Items (map Some ps @ None # ss) \<and> \<not> hasUsername ''admin'' ps)"
    by (rule getUsers_empty_iff)
  have g: "USERS_KEY (storage s) = NoItem \<or> USERS_KEY (storage s) = EmptyText \<or>
    (\<exists>us. USERS_KEY (storage s) = Items (map Some us)) \<longrightarrow>
      getUsersFromStorage (storage s) \<noteq> []"
  proof (intro impI, elim disjE exE)
    fix us assume "USERS_KEY (storage s) = Items (map Some us)"
    moreover have "hasUsername ''admin'' us \<Longrightarrow> us \<noteq> []" by (auto simp: hasUsername_def)
    ultimately show "getUsersFromStorage (storage s) \<noteq> []"
      by (auto simp: getUsers_records)
  qed (simp_all add: getUsers_missing)
  from a b c d e f g show ?thesis by blast
qed

text \<open>
  A stored citizen gets the seed appended, and on an empty browser the identifier
  \<^verbatim>\<open>admin\<close> cannot be registered.
\<close>

theorem seed_keyed_on_username_witness:
  "getUsersFromStorage \<lparr>DB_KEY = NoItem, USERS_KEY = Items [Some sampleUser]\<rparr> =
     [Some sampleUser, Some defaultAdmin] \<and>
   handleRegister (initialApp\<lparr>userVal := ''admin'', passVal := ''pw4'', nameVal := ''Eve''\<rparr>) =
     (Inr UsernameExists,
      initialApp\<lparr>userVal := ''admin'', passVal := ''pw4'', nameVal := ''Eve''\<rparr>)"
proof -
  let ?l = "\<lparr>DB_KEY = NoItem, USERS_KEY = Items [Some sampleUser]\<rparr>"
  let ?s = "initialApp\<lparr>userVal := ''admin'', passVal := ''pw4'', nameVal := ''Eve''\<rparr>"
  have h: "\<not> hasUsername ''admin'' [sampleUser]"
    by (simp add: hasUsername_def sampleUser_def)
  have k: "USERS_KEY ?l = Items (map Some [sampleUser])" by simp
  from seed_keyed_on_username [of ?l ?s] h k
  have "getUsersFromStorage ?l = map Some ([sampleUser] @ [defaultAdmin])" by blast
  then have 1: "getUsersFromStorage ?l = [Some sampleUser, Some defaultAdmin]" by simp
  have g: "userVal ?s = ''admin''" "USERS_KEY (storage ?s) = NoItem"
    by (simp_all add: initialApp_def emptyStorage_def)
  from seed_keyed_on_username [of ?l ?s] g
  have 2: "handleRegister ?s = (Inr UsernameExists, ?s)" by blast
  from 1 2 show ?thesis by blast
qed

text \<open>
  C10 as stated fails in its last part: when the user slot holds text that is not JSON, or
  the array \<^verbatim>\<open>[null]\<close>, the load returns the empty directory, and registering the
  identifier \<^verbatim>\<open>admin\<close> succeeds, storing it with the citizen role.
\<close>

theorem handleRegister_admin_on_unreadable:
  "fst (handleRegister
         (initialApp\<lparr>storage := \<lparr>DB_KEY = NoItem, USERS_KEY = BadText\<rparr>,
            userVal := ''admin'', passVal := ''pw4'', nameVal := ''Eve''\<rparr>)) =
     Inr RegistrationSuccessful \<and>
   USERS_KEY (storage (snd (handleRegister
         (initialApp\<lparr>storage := \<lparr>DB_KEY = NoItem, USERS_KEY = BadText\<rparr>,
            userVal := ''admin'', passVal := ''pw4'', nameVal := ''Eve''\<rparr>)))) =
     Items [Some \<lparr>username = ''admin'', password = ''pw4'', name = ''Eve'', role = User\<rparr>] \<and>
   fst (handleRegister
         (initialApp\<lparr>storage := \<lparr>DB_KEY = NoItem, USERS_KEY = Items [None]\<rparr>,
            userVal := ''admin'', passVal := ''pw4'', nameVal := ''Eve''\<rparr>)) =
     Inr RegistrationSuccessful"
  by (simp add: handleRegister_def getUsersFromStorage_def parseUsers_def pushDefaultAdmin_def
      saveUsersToStorage_def orString_def initialApp_def)

subsection \<open>Save followed by load\<close>

text \<open>
  C7, as the code has it. Saving a complaint collection and loading it gives that
  collection. Saving a user collection and loading it gives that collection when one of
  its records has the identifier \<^verbatim>\<open>admin\<close>, and that collection followed by the seed
  account otherwise. A save to one slot does not change what the other loads. Text that is
  not JSON loads as the empty collection in both stores.
\<close>

theorem save_load_roundtrip:
  "getComplaintsFromStorage (saveComplaintsToStorage cs ls) = JArray cs \<and>
   getUsersFromStorage (saveUsersToStorage (map Some us) ls) =
     map Some (if hasUsername ''admin'' us then us else us @ [defaultAdmin]) \<and>
   getUsersFromStorage (saveComplaintsToStorage cs ls) = getUsersFromStorage ls \<and>
   getComplaintsFromStorage (saveUsersToStorage xs ls) = getComplaintsFromStorage ls \<and>
   (DB_KEY ls = BadText \<longrightarrow> getComplaintsFromStorage ls = JArray []) \<and>
   (USERS_KEY ls = BadText \<longrightarrow> getUsersFromStorage ls = [])"
proof -
  have a: "getComplaintsFromStorage (saveComplaintsToStorage cs ls) = JArray cs"
    by (simp add: getComplaintsFromStorage_def saveComplaintsToStorage_def)
  have b: "getUsersFromStorage (saveUsersToStorage (map Some us) ls) =
     map Some (if hasUsername ''admin'' us then us else us @ [defaultAdmin])"
    by (simp add: getUsers_save pushDefaultAdmin_records)
  have c: "getUsersFromStorage (saveComplaintsToStorage cs ls) = getUsersFromStorage ls"
    by (simp add: getUsersFromStorage_def parseUsers_def saveComplaintsToStorage_def)
  have d: "getComplaintsFromStorage (saveUsersToStorage xs ls) = getComplaintsFromStorage ls"
    by (simp add: getComplaintsFromStorage_def saveUsersToStorage_def)
  have e: "DB_KEY ls = BadText \<longrightarrow> getComplaintsFromStorage ls = JArray []"
    by (simp add: getComplaintsFromStorage_def)
  have f: "USERS_KEY ls = BadText \<longrightarrow> getUsersFromStorage ls = []"
    by (simp add: getUsers_unreadable)
  from a b c d e f show ?thesis by blast
qed

text \<open>A directory that holds the seed comes back as saved; unreadable slots load empty.\<close>

theorem save_load_roundtrip_witness:
  "getUsersFromStorage (saveUsersToStorage [Some defaultAdmin, Some sampleUser] emptyStorage) =
     [Some defaultAdmin, Some sampleUser] \<and>
   getComplaintsFromStorage \<lparr>DB_KEY = BadText, USERS_KEY = NoItem\<rparr> = JArray [] \<and>
   getUsersFromStorage \<lparr>DB_KEY = NoItem, USERS_KEY = BadText\<rparr> = []"
proof -
  have h: "hasUsername ''admin'' [defaultAdmin, sampleUser]"
    by (simp add: hasUsername_def defaultAdmin_def)
  have 1: "getUsersFromStorage (saveUsersToStorage [Some defaultAdmin, Some sampleUser] emptyStorage) =
     [Some defaultAdmin, Some sampleUser]"
    using save_load_roundtrip [of "[]" emptyStorage "[defaultAdmin, sampleUser]" "[]"] h by simp
  have 2: "getComplaintsFromStorage \<lparr>DB_KEY = BadText, USERS_KEY = NoItem\<rparr> = JArray []"
    using save_load_roundtrip [of "[]" "\<lparr>DB_KEY = BadText, USERS_KEY = NoItem\<rparr>" "[]" "[]"]
    by simp
  have 3: "getUsersFromStorage \<lparr>DB_KEY = NoItem, USERS_KEY = BadText\<rparr> = []"
    using save_load_roundtrip [of "[]" "\<lparr>DB_KEY = NoItem, USERS_KEY = BadText\<rparr>" "[]" "[]"]
    by simp
  from 1 2 3 show ?thesis by blast
qed

text \<open>
  C7 as stated fails for the user store: the empty collection, once saved, loads as the
  seed account, and a collection of one citizen loads with the seed appended.
\<close>

theorem save_load_users_adds_seed:
  "getUsersFromStorage (saveUsersToStorage [] emptyStorage) = [Some defaultAdmin] \<and>
   getUsersFromStorage (saveUsersToStorage [Some sampleUser] emptyStorage) =
     [Some sampleUser, Some defaultAdmin]"
  by (simp add: getUsersFromStorage_def parseUsers_def saveUsersToStorage_def
      pushDefaultAdmin_def sampleUser_def)

subsection \<open>Login\<close>

lemma handleLogin_throws:
  "jsFind (\<lambda>u. username u = userVal s \<and> password u = passVal s)
     (getUsersFromStorage (storage s)) = Inl e \<Longrightarrow>
   handleLogin s = (Inl e, s)"
  by (simp add: handleLogin_def Let_def)

lemma handleLogin_found:
  "jsFind (\<lambda>u. username u = userVal s \<and> password u = passVal s)
     (getUsersFromStorage (storage s)) = Inr (Some u) \<Longrightarrow>
   handleLogin s =
     (if role u \<noteq> loginRole s then (Inr (Some (AccessDenied (role u))), s)
      else (Inr None,
            s\<lparr>currentUser := Some \<lparr>id_s = username u, role_s = role u, name_s = name u\<rparr>,
              view := DashboardView\<rparr>))"
  by (simp add: handleLogin_def Let_def)

lemma handleLogin_not_found:
  "jsFind (\<lambda>u. username u = userVal s \<and> password u = passVal s)
     (getUsersFromStorage (storage s)) = Inr None \<Longrightarrow>
   handleLogin s = (Inr (Some InvalidCredentials), s)"
  by (simp add: handleLogin_def Let_def)

lemma find_distinct_key:
  assumes "distinct (map f xs)" "x \<in> set xs" "P x" "\<And>y. P y \<Longrightarrow> f y = k"
  shows "find P xs = Some x"
  using assms
proof (induction xs)
  case Nil
  then show ?case by simp
next
  case (Cons a xs)
  show ?case
  proof (cases "P a")
    case True
    have "a = x"
    proof (rule ccontr)
      assume "a \<noteq> x"
      with Cons.prems(2) have "x \<in> set xs" by simp
      then have "f x \<in> f ` set xs" by simp
      moreover have "f a = f x" using True Cons.prems(3,4) by simp
      ultimately show False using Cons.prems(1) by simp
    qed
    with True show ?thesis by simp
  next
    case False
    with Cons.prems have "x \<in> set xs" by auto
    with Cons False show ?thesis by simp
  qed
qed

text \<open>
  C8. Login scans the loaded directory for the first record that matches identifier and
  secret together. On a directory without \<^verbatim>\<open>null\<close> elements the scan finds nothing
  exactly when no record matches. Finding nothing gives the invalid-credentials alert with
  the state unchanged. A found record is in the directory and matches; if its stored role
  differs from the claimed role the outcome is the access-denied alert, a different alert
  with a different text, and the state is unchanged; if the roles agree the session takes
  the record's identifier, role and display name and the dashboard is shown. Where
  identifiers are unique and no element is \<^verbatim>\<open>null\<close>, any matching record is the one
  found. A scan that reaches a \<^verbatim>\<open>null\<close> element before a match throws a TypeError and
  changes nothing; a match before the first \<^verbatim>\<open>null\<close> is found as usual.
\<close>

theorem handleLogin_outcomes:
  fixes s :: app
  defines "users \<equiv> getUsersFromStorage (storage s)"
  defines "found \<equiv> jsFind (\<lambda>u. username u = userVal s \<and> password u = passVal s) users"
  shows
  "(None \<notin> set users \<longrightarrow>
      (found = Inr None \<longleftrightarrow> \<not> list_ex (matchesCredentials s) (records users))) \<and>
   (found = Inr None \<longrightarrow> handleLogin s = (Inr (Some InvalidCredentials), s)) \<and>
   (\<forall>u. found = Inr (Some u) \<longrightarrow> Some u \<in> set users \<and> matchesCredentials s u) \<and>
   (\<forall>u. found = Inr (Some u) \<and> role u \<noteq> loginRole s \<longrightarrow>
        handleLogin s = (Inr (Some (AccessDenied (role u))), s)) \<and>
   (\<forall>u. found = Inr (Some u) \<and> role u = loginRole s \<longrightarrow>
        handleLogin s =
          (Inr None,
           s\<lparr>currentUser := Some \<lparr>id_s = username u, role_s = role u, name_s = name u\<rparr>,
             view := DashboardView\<rparr>)) \<and>
   (\<forall>u. None \<notin> set users \<and> distinct (map username (records users)) \<and>
        Some u \<in> set users \<and> matchesCredentials s u \<longrightarrow>
        found = Inr (Some u)) \<and>
   (\<forall>e. found = Inl e \<longrightarrow>
        e = TypeError \<and> None \<in> set users \<and> handleLogin s = (Inl TypeError, s)) \<and>
   (None \<notin> set users \<longrightarrow> (\<forall>e. found \<noteq> Inl e)) \<and>
   (\<forall>ps ss. users = map Some ps @ None # ss \<longrightarrow>
        found =
          (case find (\<lambda>u. username u = userVal s \<and> password u = passVal s) ps of
             None \<Rightarrow> Inl TypeError | Some u \<Rightarrow> Inr (Some u))) \<and>
   (\<forall>r. AccessDenied r \<noteq> InvalidCredentials \<and>
        alertText (AccessDenied r) \<noteq> alertText InvalidCredentials)"
proof -
  have a: "None \<notin> set users \<longrightarrow>
      (found = Inr None \<longleftrightarrow> \<not> list_ex (matchesCredentials s) (records users))"
    by (auto simp: found_def jsFind_undefined list_ex_iff matchesCredentials_def)
  have b: "found = Inr None \<longrightarrow> handleLogin s = (Inr (Some InvalidCredentials), s)"
    unfolding found_def users_def using handleLogin_not_found by blast
  have c: "\<forall>u. found = Inr (Some u) \<longrightarrow> Some u \<in> set users \<and> matchesCredentials s u"
    unfolding found_def using jsFind_found [of _ users] by (auto simp: matchesCredentials_def)
  have d: "\<forall>u. found = Inr (Some u) \<and> role u \<noteq> loginRole s \<longrightarrow>
        handleLogin s = (Inr (Some (AccessDenied (role u))), s)"
    unfolding found_def users_def by (simp add: handleLogin_found)
  have e: "\<forall>u. found = Inr (Some u) \<and> role u = loginRole s \<longrightarrow>
        handleLogin s =
          (Inr None,
           s\<lparr>currentUser := Some \<lparr>id_s = username u, role_s = role u, name_s = name u\<rparr>,
             view := DashboardView\<rparr>)"
    unfolding found_def users_def by (simp add: handleLogin_found)
  have f: "\<forall>u. None \<notin> set users \<and> distinct (map username (records users)) \<and>
        Some u \<in> set users \<and> matchesCredentials s u \<longrightarrow>
        found = Inr (Some u)"
  proof (intro allI impI, elim conjE)
    fix u
    assume n: "None \<notin> set users" and "distinct (map username (records users))"
      and "Some u \<in> set users" and "matchesCredentials s u"
    then have "find (\<lambda>u. username u = userVal s \<and> password u = passVal s) (records users) = Some u"
      by (intro find_distinct_key [where f = username and k = "userVal s"])
         (simp_all add: set_records matchesCredentials_def)
    with jsFind_no_null [OF n] show "found = Inr (Some u)" by (simp add: found_def)
  qed
  have g: "\<forall>e. found = Inl e \<longrightarrow>
        e = TypeError \<and> None \<in> set users \<and> handleLogin s = (Inl TypeError, s)"
  proof (intro allI impI)
    fix e assume t: "found = Inl e"
    then have "e = TypeError \<and> None \<in> set users"
      unfolding found_def by (rule jsFind_throws)
    moreover from t have "handleLogin s = (Inl e, s)"
      unfolding found_def users_def by (rule handleLogin_throws)
    ultimately show "e = TypeError \<and> None \<in> set users \<and> handleLogin s = (Inl TypeError, s)"
      by simp
  qed
  have h: "None \<notin> set users \<longrightarrow> (\<forall>e. found \<noteq> Inl e)"
    unfolding found_def using jsFind_throws [of _ users] by blast
  have h': "\<forall>ps ss. users = map Some ps @ None # ss \<longrightarrow>
        found =
          (case find (\<lambda>u. username u = userVal s \<and> password u = passVal s) ps of
             None \<Rightarrow> Inl TypeError | Some u \<Rightarrow> Inr (Some u))"
    unfolding found_def by (simp add: jsFind_before_null)
  have i: "\<forall>r. AccessDenied r \<noteq> InvalidCredentials \<and>
        alertText (AccessDenied r) \<noteq> alertText InvalidCredentials"
    by (simp add: alertText_def)
  from a b c d e f g h h' i show ?thesis by blast
qed

text \<open>
  On an empty browser the seeded administrator logs in with the administrator role, is
  denied with the citizen role, and a wrong secret gives invalid credentials.
\<close>

theorem handleLogin_outcomes_witness:
  "handleLogin (initialApp\<lparr>userVal := ''admin'', passVal := ''admin123'', loginRole := Admin\<rparr>) =
     (Inr None,
      initialApp\<lparr>userVal := ''admin'', passVal := ''admin123'', loginRole := Admin,
        currentUser := Some \<lparr>id_s = ''admin'', role_s = Admin, name_s = ''Chief Administrator''\<rparr>,
        view := DashboardView\<rparr>) \<and>
   fst (handleLogin (initialApp\<lparr>userVal := ''admin'', passVal := ''admin123''\<rparr>)) =
     Inr (Some (AccessDenied Admin)) \<and>
   fst (handleLogin (initialApp\<lparr>userVal := ''admin'', passVal := ''guess''\<rparr>)) =
     Inr (Some InvalidCredentials)"
proof -
  let ?a = "initialApp\<lparr>userVal := ''admin'', passVal := ''admin123'', loginRole := Admin\<rparr>"
  let ?b = "initialApp\<lparr>userVal := ''admin'', passVal := ''admin123''\<rparr>"
  let ?c = "initialApp\<lparr>userVal := ''admin'', passVal := ''guess''\<rparr>"
  have fa: "jsFind (\<lambda>u. username u = userVal ?a \<and> password u = passVal ?a)
              (getUsersFromStorage (storage ?a)) = Inr (Some defaultAdmin)"
    by (simp add: initialApp_def emptyStorage_def getUsers_missing defaultAdmin_def)
  have fb: "jsFind (\<lambda>u. username u = userVal ?b \<and> password u = passVal ?b)
              (getUsersFromStorage (storage ?b)) = Inr (Some defaultAdmin)"
    by (simp add: initialApp_def emptyStorage_def getUsers_missing defaultAdmin_def)
  have fc: "jsFind (\<lambda>u. username u = userVal ?c \<and> password u = passVal ?c)
              (getUsersFromStorage (storage ?c)) = Inr None"
    by (simp add: initialApp_def emptyStorage_def getUsers_missing defaultAdmin_def)
  have ra: "role defaultAdmin = loginRole ?a" "role defaultAdmin \<noteq> loginRole ?b"
    by (simp_all add: defaultAdmin_def initialApp_def)
  from handleLogin_outcomes [of ?a] fa ra(1)
  have "handleLogin ?a =
     (Inr None, ?a\<lparr>currentUser := Some \<lparr>id_s = username defaultAdmin, role_s = role defaultAdmin,
                                     name_s = name defaultAdmin\<rparr>,
               view := DashboardView\<rparr>)"
    by blast
  then have 1: "handleLogin ?a =
     (Inr None, ?a\<lparr>currentUser := Some \<lparr>id_s = ''admin'', role_s = Admin,
                                     name_s = ''Chief Administrator''\<rparr>,
               view := DashboardView\<rparr>)"
    by (simp add: defaultAdmin_def)
  from handleLogin_outcomes [of ?b] fb ra(2)
  have "handleLogin ?b = (Inr (Some (AccessDenied (role defaultAdmin))), ?b)"
    by blast
  then have 2: "fst (handleLogin ?b) = Inr (Some (AccessDenied Admin))"
    by (simp add: defaultAdmin_def)
  from handleLogin_outcomes [of ?c] fc
  have "handleLogin ?c = (Inr (Some InvalidCredentials), ?c)"
    by blast
  then have 3: "fst (handleLogin ?c) = Inr (Some InvalidCredentials)" by simp
  from 1 2 3 show ?thesis by blast
qed

subsection \<open>Submission\<close>

lemma submitComplaint_ok:
  assumes "currentUser s = Some cu" "trim (textVal s) \<noteq> []" "parseResult api = Some r"
  shows "submitComplaint api rnd now s =
    (None,
     s\<lparr>complaints := newComplaint cu s r rnd now # complaints s,
       storage := (storage s)\<lparr>DB_KEY := Items (newComplaint cu s r rnd now # complaints s)\<rparr>,
       textVal := [], img := None, loading := False\<rparr>)"
  using assms by (simp add: submitComplaint_def Let_def saveComplaintsToStorage_def)

lemma submitComplaint_abort:
  assumes "currentUser s = Some cu" "trim (textVal s) \<noteq> []" "parseResult api = None"
  shows "submitComplaint api rnd now s = (Some AIProcessingError, s\<lparr>loading := False\<rparr>)"
  using assms by (simp add: submitComplaint_def)

lemma submitComplaint_guard:
  assumes "currentUser s = None \<or> trim (textVal s) = []"
  shows "submitComplaint api rnd now s = (None, s)"
  using assms by (auto simp: submitComplaint_def split: option.splits)

lemma citizenApp_guard:
  "currentUser citizenApp = Some \<lparr>id_s = ''asha'', role_s = User, name_s = ''Asha''\<rparr>"
  "trim (textVal citizenApp) \<noteq> []"
  by (simp add: citizenApp_def, code_simp)

text \<open>
  C1, as the code has it. When a citizen is logged in, the text is not blank and the reply
  of the classification call is read, the submission creates a record with status Pending,
  no remarks, the selected category, the owner's identity, the submitted text, the image
  and the time stamp; its English text is the reply's translated text, or the submitted
  text when that field is absent or empty; its urgency is the reply's urgency string,
  whatever it is, or Medium when that field is absent or empty. The record is put in front
  of the ledger and the new ledger is written to the complaint slot.
\<close>

theorem submitComplaint_record:
  assumes "currentUser s = Some cu" and "trim (textVal s) \<noteq> []"
    and "parseResult api = Some r"
  shows "\<exists>c. submitComplaint api rnd now s =
           (None,
            s\<lparr>complaints := c # complaints s,
              storage := (storage s)\<lparr>DB_KEY := Items (c # complaints s)\<rparr>,
              textVal := [], img := None, loading := False\<rparr>) \<and>
         status c = Pending \<and> adminComments c = [] \<and> category c = selectedCat s \<and>
         englishText c =
           (case translated r of None \<Rightarrow> textVal s
            | Some t \<Rightarrow> if t = [] then textVal s else t) \<and>
         urgency c =
           (case urgency_r r of None \<Rightarrow> ''Medium''
            | Some u \<Rightarrow> if u = [] then ''Medium'' else u) \<and>
         originalText c = textVal s \<and> userId c = id_s cu \<and> userName c = name_s cu \<and>
         image c = img s \<and> timestamp c = now"
proof (intro exI conjI)
  show "submitComplaint api rnd now s =
           (None,
            s\<lparr>complaints := newComplaint cu s r rnd now # complaints s,
              storage := (storage s)\<lparr>DB_KEY := Items (newComplaint cu s r rnd now # complaints s)\<rparr>,
              textVal := [], img := None, loading := False\<rparr>)"
    using assms by (rule submitComplaint_ok)
qed (simp_all add: newComplaint_def orField_def orString_def split: option.splits)

text \<open>
  The scenario of the specification: "road broken near market", category Roads, reply
  translated "Road is broken near the market" with urgency High; and a reply whose
  urgency is the label "critical", which is stored as it is.
\<close>

theorem submitComplaint_record_witness:
  "map (\<lambda>c. (category c, urgency c, englishText c, status c, adminComments c))
     (complaints (snd (submitComplaint
        (Response (JsonValue \<lparr>translated = Some ''Road is broken near the market'',
                               urgency_r = Some ''High''\<rparr>))
        42 1700000000000 citizenApp))) =
   [(''Roads'', ''High'', ''Road is broken near the market'', Pending, [])] \<and>
   map urgency
     (complaints (snd (submitComplaint
        (Response (JsonValue \<lparr>translated = None, urgency_r = Some ''critical''\<rparr>))
        42 1700000000000 citizenApp))) =
   [''critical'']"
proof -
  let ?r = "\<lparr>translated = Some ''Road is broken near the market'', urgency_r = Some ''High''\<rparr>"
  let ?q = "\<lparr>translated = None, urgency_r = Some ''critical''\<rparr>"
  have p: "parseResult (Response (JsonValue ?r)) = Some ?r"
    by (simp add: parseResult_def)
  have pq: "parseResult (Response (JsonValue ?q)) = Some ?q"
    by (simp add: parseResult_def)
  from submitComplaint_record [OF citizenApp_guard p, of 42 1700000000000]
  obtain c where c: "submitComplaint (Response (JsonValue ?r)) 42 1700000000000 citizenApp =
           (None,
            citizenApp\<lparr>complaints := c # complaints citizenApp,
              storage := (storage citizenApp)\<lparr>DB_KEY := Items (c # complaints citizenApp)\<rparr>,
              textVal := [], img := None, loading := False\<rparr>)"
    and f: "status c = Pending" "adminComments c = []" "category c = selectedCat citizenApp"
      "englishText c = ''Road is broken near the market''" "urgency c = ''High''"
    by auto
  from submitComplaint_record [OF citizenApp_guard pq, of 42 1700000000000]
  obtain d where d: "submitComplaint (Response (JsonValue ?q)) 42 1700000000000 citizenApp =
           (None,
            citizenApp\<lparr>complaints := d # complaints citizenApp,
              storage := (storage citizenApp)\<lparr>DB_KEY := Items (d # complaints citizenApp)\<rparr>,
              textVal := [], img := None, loading := False\<rparr>)"
    and g: "urgency d = ''critical''"
    by auto
  have v: "complaints citizenApp = []" "selectedCat citizenApp = ''Roads''"
    by (simp_all add: citizenApp_def initialApp_def)
  from c f v have 1: "map (\<lambda>c. (category c, urgency c, englishText c, status c, adminComments c))
     (complaints (snd (submitComplaint (Response (JsonValue ?r)) 42 1700000000000 citizenApp))) =
   [(''Roads'', ''High'', ''Road is broken near the market'', Pending, [])]"
    by simp
  from d g v have 2: "map urgency
     (complaints (snd (submitComplaint (Response (JsonValue ?q)) 42 1700000000000 citizenApp))) =
   [''critical'']"
    by simp
  from 1 2 show ?thesis by simp
qed

text \<open>
  C1 as stated fails where a field is present and empty: \<^verbatim>\<open>"" || text\<close> is
  \<^verbatim>\<open>text\<close> and \<^verbatim>\<open>"" || 'Medium'\<close> is \<^verbatim>\<open>'Medium'\<close>, so the new record has the
  submitted text and Medium, not the reply's (empty) translated text and urgency.
\<close>

theorem submitComplaint_empty_translation:
  "map (\<lambda>c. (englishText c, urgency c))
     (complaints (snd (submitComplaint
        (Response (JsonValue \<lparr>translated = Some [], urgency_r = Some []\<rparr>))
        42 1700000000000 citizenApp))) =
   [(''road broken near market'', ''Medium'')]"
proof -
  let ?r = "\<lparr>translated = Some [], urgency_r = Some []\<rparr>"
  have p: "parseResult (Response (JsonValue ?r)) = Some ?r"
    by (simp add: parseResult_def)
  have v: "textVal citizenApp = ''road broken near market''" "complaints citizenApp = []"
    by (simp_all add: citizenApp_def initialApp_def)
  show ?thesis
    unfolding submitComplaint_ok [OF citizenApp_guard p]
    by (simp add: newComplaint_def orField_def orString_def v)
qed

text \<open>
  C3. A rejected call reaches the \<^verbatim>\<open>catch\<close>, as does every other failure inside the
  \<^verbatim>\<open>try\<close>. Then the ledger, the storage, the typed text and the image are what they
  were, and (when the submission passed its guard) the processing-error alert is raised and
  only the loading flag is reset. When the reply is read, no alert is raised and the typed
  text and the image are cleared.
\<close>

theorem submitComplaint_failure:
  "parseResult Rejected = None \<and>
   (parseResult api = None \<longrightarrow>
      complaints (snd (submitComplaint api rnd now s)) = complaints s \<and>
      storage (snd (submitComplaint api rnd now s)) = storage s \<and>
      textVal (snd (submitComplaint api rnd now s)) = textVal s \<and>
      img (snd (submitComplaint api rnd now s)) = img s) \<and>
   (parseResult api = None \<and> currentUser s \<noteq> None \<and> trim (textVal s) \<noteq> [] \<longrightarrow>
      submitComplaint api rnd now s = (Some AIProcessingError, s\<lparr>loading := False\<rparr>)) \<and>
   (parseResult api \<noteq> None \<and> currentUser s \<noteq> None \<and> trim (textVal s) \<noteq> [] \<longrightarrow>
      fst (submitComplaint api rnd now s) = None \<and>
      textVal (snd (submitComplaint api rnd now s)) = [] \<and>
      img (snd (submitComplaint api rnd now s)) = None)"
proof -
  have a: "parseResult Rejected = None" by (simp add: parseResult_def)
  have b: "complaints (snd (submitComplaint api rnd now s)) = complaints s \<and>
      storage (snd (submitComplaint api rnd now s)) = storage s \<and>
      textVal (snd (submitComplaint api rnd now s)) = textVal s \<and>
      img (snd (submitComplaint api rnd now s)) = img s" if "parseResult api = None"
  proof (cases "currentUser s = None \<or> trim (textVal s) = []")
    case True
    then show ?thesis by (simp add: submitComplaint_guard)
  next
    case False
    then obtain cu where "currentUser s = Some cu" "trim (textVal s) \<noteq> []" by auto
    from submitComplaint_abort [OF this that] show ?thesis by simp
  qed
  have c: "submitComplaint api rnd now s = (Some AIProcessingError, s\<lparr>loading := False\<rparr>)"
    if "parseResult api = None" "currentUser s \<noteq> None" "trim (textVal s) \<noteq> []"
    using that submitComplaint_abort by auto
  have d: "fst (submitComplaint api rnd now s) = None \<and>
      textVal (snd (submitComplaint api rnd now s)) = [] \<and>
      img (snd (submitComplaint api rnd now s)) = None"
    if "parseResult api \<noteq> None" "currentUser s \<noteq> None" "trim (textVal s) \<noteq> []"
  proof -
    from that obtain cu r where "currentUser s = Some cu" "trim (textVal s) \<noteq> []"
      "parseResult api = Some r" by auto
    from submitComplaint_ok [OF this] show ?thesis by simp
  qed
  from a b c d show ?thesis by blast
qed

text \<open>
  A rejected call leaves the citizen's text in place and the ledger empty; a reply without
  text clears the input.
\<close>

theorem submitComplaint_failure_witness:
  "submitComplaint Rejected 42 1700000000000 citizenApp =
     (Some AIProcessingError, citizenApp\<lparr>loading := False\<rparr>) \<and>
   textVal (snd (submitComplaint Rejected 42 1700000000000 citizenApp)) =
     ''road broken near market'' \<and>
   complaints (snd (submitComplaint Rejected 42 1700000000000 citizenApp)) = [] \<and>
   textVal (snd (submitComplaint (Response NoText) 42 1700000000000 citizenApp)) = []"
proof -
  have g: "currentUser citizenApp \<noteq> None" "trim (textVal citizenApp) \<noteq> []"
    using citizenApp_guard by simp_all
  have p: "parseResult Rejected = None" "parseResult (Response NoText) \<noteq> None"
    by (simp_all add: parseResult_def)
  have v: "textVal citizenApp = ''road broken near market''" "complaints citizenApp = []"
    by (simp_all add: citizenApp_def initialApp_def)
  from submitComplaint_failure [of Rejected 42 1700000000000 citizenApp] g p v
  have 1: "submitComplaint Rejected 42 1700000000000 citizenApp =
     (Some AIProcessingError, citizenApp\<lparr>loading := False\<rparr>)"
    and 2: "textVal (snd (submitComplaint Rejected 42 1700000000000 citizenApp)) =
     ''road broken near market''"
    and 3: "complaints (snd (submitComplaint Rejected 42 1700000000000 citizenApp)) = []"
    by simp_all
  from submitComplaint_failure [of "Response NoText" 42 1700000000000 citizenApp] g p
  have 4: "textVal (snd (submitComplaint (Response NoText) 42 1700000000000 citizenApp)) = []"
    by simp
  from 1 2 3 4 show ?thesis by simp
qed

text \<open>
  C9 as stated fails: a reply whose text is not JSON makes \<^verbatim>\<open>JSON.parse\<close> throw inside
  the \<^verbatim>\<open>try\<close>, the processing-error alert is raised and no record is created.
\<close>

theorem submitComplaint_unparseable_aborts:
  "submitComplaint (Response NotJson) 42 1700000000000 citizenApp =
     (Some AIProcessingError, citizenApp\<lparr>loading := False\<rparr>) \<and>
   complaints (citizenApp\<lparr>loading := False\<rparr>) = []"
proof -
  have p: "parseResult (Response NotJson) = None"
    by (simp add: parseResult_def)
  have v: "complaints citizenApp = []"
    by (simp add: citizenApp_def initialApp_def)
  show ?thesis
    unfolding submitComplaint_abort [OF citizenApp_guard p] by (simp add: v)
qed

text \<open>
  C9, as the code has it. For a submission that passed its guard: a reply with no text, or
  with a JSON value that has neither field, completes the submission with the submitted
  text as English text and Medium urgency; a reply whose text is not JSON, or is the JSON
  \<^verbatim>\<open>null\<close>, aborts the submission with the processing-error alert.
\<close>

theorem submitComplaint_fallback:
  assumes "currentUser s = Some cu" and "trim (textVal s) \<noteq> []"
  shows
  "(api = Response NoText \<or>
    api = Response (JsonValue \<lparr>translated = None, urgency_r = None\<rparr>) \<longrightarrow>
      fst (submitComplaint api rnd now s) = None \<and>
      (\<exists>c. complaints (snd (submitComplaint api rnd now s)) = c # complaints s \<and>
           englishText c = textVal s \<and> urgency c = ''Medium'' \<and> status c = Pending)) \<and>
   (api = Response NotJson \<or> api = Response JsonNull \<longrightarrow>
      submitComplaint api rnd now s = (Some AIProcessingError, s\<lparr>loading := False\<rparr>))"
proof (intro conjI impI)
  assume "api = Response NoText \<or>
    api = Response (JsonValue \<lparr>translated = None, urgency_r = None\<rparr>)"
  then have p: "parseResult api = Some \<lparr>translated = None, urgency_r = None\<rparr>"
    by (auto simp: parseResult_def)
  note ok = submitComplaint_ok [OF assms p, of rnd now]
  show "fst (submitComplaint api rnd now s) = None" by (simp add: ok)
  let ?c = "newComplaint cu s \<lparr>translated = None, urgency_r = None\<rparr> rnd now"
  have "complaints (snd (submitComplaint api rnd now s)) = ?c # complaints s"
    by (simp add: ok)
  moreover have "englishText ?c = textVal s" "urgency ?c = ''Medium''" "status ?c = Pending"
    by (simp_all add: newComplaint_def orField_def)
  ultimately show "\<exists>c. complaints (snd (submitComplaint api rnd now s)) = c # complaints s \<and>
           englishText c = textVal s \<and> urgency c = ''Medium'' \<and> status c = Pending"
    by blast
next
  assume "api = Response NotJson \<or> api = Response JsonNull"
  then have "parseResult api = None" by (auto simp: parseResult_def)
  with assms show "submitComplaint api rnd now s =
      (Some AIProcessingError, s\<lparr>loading := False\<rparr>)"
    by (rule submitComplaint_abort)
qed

text \<open>
  A reply without text files the citizen's complaint with Medium urgency; the reply
  \<^verbatim>\<open>null\<close> raises the alert.
\<close>

theorem submitComplaint_fallback_witness:
  "map (\<lambda>c. (englishText c, urgency c))
     (complaints (snd (submitComplaint (Response NoText) 42 1700000000000 citizenApp))) =
     [(''road broken near market'', ''Medium'')] \<and>
   fst (submitComplaint (Response JsonNull) 42 1700000000000 citizenApp) =
     Some AIProcessingError"
proof -
  note t = submitComplaint_fallback [OF citizenApp_guard, of _ 42 1700000000000]
  have v: "textVal citizenApp = ''road broken near market''" "complaints citizenApp = []"
    by (simp_all add: citizenApp_def initialApp_def)
  from t [of "Response NoText"] v
  have 1: "map (\<lambda>c. (englishText c, urgency c))
     (complaints (snd (submitComplaint (Response NoText) 42 1700000000000 citizenApp))) =
     [(''road broken near market'', ''Medium'')]"
    by auto
  from t [of "Response JsonNull"]
  have 2: "fst (submitComplaint (Response JsonNull) 42 1700000000000 citizenApp) =
     Some AIProcessingError"
    by simp
  from 1 2 show ?thesis by simp
qed

subsection \<open>Status update\<close>





subsection \<open>The administrator's filter\<close>















end
